theory Spec2Isabelle
  imports Main
begin

section \<open>Routes of the relay: data\<close>

text \<open>
  The package \<^verbatim>\<open>routing\<close> holds a table of routes (\<^verbatim>\<open>Routes\<close>), each route
  (\<^verbatim>\<open>Route\<close>) owning a goroutine (\<^verbatim>\<open>relay\<close>) that forwards lines to a TCP endpoint.
  A line is a Go byte slice, here a list of characters. Go's \<^verbatim>\<open>error\<close> values are kept
  by their origin: \<^verbatim>\<open>errors.New\<close> with its message, a failure of \<^verbatim>\<open>regexp.Compile\<close>,
  a failure of the \<^verbatim>\<open>net\<close> package. A \<^verbatim>\<open>nil\<close> error is \<open>None\<close>.
\<close>

type_synonym bytes = string

datatype error = ErrorsNew string | CompileError string | NetError string

text \<open>
  A call either returns, or panics (a nil pointer is dereferenced), or blocks for ever
  (a send on a nil channel, or on a channel nobody receives from any more).
\<close>

datatype 'a exec = Done 'a | Panic | Block

text \<open>
  The four channels of a route are unbuffered: a send completes when the relay goroutine
  receives. The model keeps, per route, the values handed over so far, in order.
\<close>

datatype chan_msg =
    OnCh bytes
  | OnShutdown bool
  | OnInConnUpdate bool
  | OnConnUpdates "nat option"

text \<open>
  \<open>NotRunning\<close>: \<^verbatim>\<open>Run\<close> has not been called, the channel fields are nil.
  \<open>Running\<close>: the channels exist and the relay goroutine is in its loop.
  \<open>Exited\<close>: the channels exist and the relay goroutine has returned.
\<close>

datatype run_state = NotRunning | Running | Exited

text \<open>
  The struct \<^verbatim>\<open>Route\<close>. \<open>'rx\<close> is the type of compiled regular expressions
  (\<^verbatim>\<open>*regexp.Regexp\<close>; \<open>None\<close> is the nil pointer), a connection or a statsd client
  is a handle. The fields \<^verbatim>\<open>ch\<close>, \<^verbatim>\<open>shutdown\<close>, \<^verbatim>\<open>connUpdates\<close> and
  \<^verbatim>\<open>inConnUpdate\<close> are made together by \<^verbatim>\<open>Run\<close>; \<open>phase\<close> and \<open>sent\<close> stand for them.
\<close>

record 'rx Route =
  Key :: string
  Patt :: string
  Addr :: string
  spoolDir :: string
  Spool :: bool
  instrument :: nat
  Reg :: "'rx option"
  phase :: run_state
  queue :: "string option"
  raddr :: "string option"
  sent :: "chan_msg list"

text \<open>
  The struct \<^verbatim>\<open>Routes\<close>. Every pointer stored in \<^verbatim>\<open>Map\<close> comes from its own call of
  \<^verbatim>\<open>NewRoute\<close>, so no two keys share a route and the map is modelled by value. The mutex
  is not modelled: every operation below holds it from entry to return, so operations on
  the table do not interleave.
\<close>

record 'rx Routes =
  Map :: "string \<rightharpoonup> 'rx Route"
  KeyList :: "string list"
  SpoolDir :: string

section \<open>A route\<close>

text \<open>
  \<^verbatim>\<open>regexp.Compile\<close> and \<^verbatim>\<open>Regexp.Match\<close> belong to Go's library; they are the
  parameters \<open>compile\<close> and \<open>rmatch\<close> of the functions that call them.
\<close>

definition updatePattern ::
  "(string \<Rightarrow> error + 'rx) \<Rightarrow> 'rx Route \<Rightarrow> string \<Rightarrow> error option \<times> 'rx Route" where
  "updatePattern compile route pattern =
     (case compile pattern of
        Inl err \<Rightarrow> (Some err, route)
      | Inr regex \<Rightarrow> (None, route\<lparr>Patt := pattern, Reg := Some regex\<rparr>))"

definition NewRoute ::
  "(string \<Rightarrow> error + 'rx) \<Rightarrow> string \<Rightarrow> string \<Rightarrow> string \<Rightarrow> string \<Rightarrow> bool \<Rightarrow> nat
     \<Rightarrow> error + 'rx Route" where
  "NewRoute compile key patt addr spool_dir spool instr =
     (let route = \<lparr>Key = key, Patt = '''', Addr = addr, spoolDir = spool_dir, Spool = spool,
                    instrument = instr, Reg = None, phase = NotRunning, queue = None,
                    raddr = None, sent = []\<rparr>
      in case updatePattern compile route patt of
           (Some err, _) \<Rightarrow> Inl err
         | (None, route') \<Rightarrow> Inr route')"

text \<open>\<^verbatim>\<open>Copy\<close> builds a new struct from seven fields; the others keep their zero value.\<close>

definition Copy :: "'rx Route \<Rightarrow> 'rx Route" where
  "Copy route =
     \<lparr>Key = Key route, Patt = Patt route, Addr = Addr route, spoolDir = spoolDir route,
      Spool = Spool route, instrument = instrument route, Reg = Reg route,
      phase = NotRunning, queue = None, raddr = None, sent = []\<rparr>"

text \<open>
  \<^verbatim>\<open>Run\<close> makes the channels, opens the disk queue \<^verbatim>\<open>"spool_" + Key\<close> when the route
  spools, starts the relay goroutine and returns its named result \<^verbatim>\<open>err\<close>, never set.
\<close>

definition Run :: "'rx Route \<Rightarrow> error option \<times> 'rx Route" where
  "Run route =
     (None, route\<lparr>phase := Running, sent := [],
                  queue := (if Spool route then Some (''spool_'' @ Key route) else queue route)\<rparr>)"

definition send :: "chan_msg \<Rightarrow> 'rx Route \<Rightarrow> 'rx Route" where
  "send m route = route\<lparr>sent := sent route @ [m]\<rparr>"

definition Shutdown :: "'rx Route \<Rightarrow> (error option \<times> 'rx Route) exec" where
  "Shutdown route =
     (case phase route of
        NotRunning \<Rightarrow> Done (Some (ErrorsNew ''not running yet''), route)
      | Running \<Rightarrow> Done (None, (send (OnShutdown True) route)\<lparr>phase := Exited\<rparr>)
      | Exited \<Rightarrow> Block)"

text \<open>
  What \<^verbatim>\<open>net.ResolveTCPAddr\<close> followed by \<^verbatim>\<open>net.DialTCP\<close> gives for an address: the
  resolution fails, or it gives a remote address and the dial fails, or the dial gives a
  connection.
\<close>

datatype net_outcome =
    ResolveFails error
  | DialFails string error
  | Connects string nat

text \<open>
  \<^verbatim>\<open>updateConn\<close> as its caller sees it: the notification \<^verbatim>\<open>true\<close>, the resolution and
  the dial, the new connection when there is one, and the deferred notification
  \<^verbatim>\<open>false\<close> on every return. The relay goroutine is the receiver of all three sends.
\<close>

definition updateConn ::
  "(string \<Rightarrow> net_outcome) \<Rightarrow> 'rx Route \<Rightarrow> (error option \<times> 'rx Route) exec" where
  "updateConn net route =
     (if phase route \<noteq> Running then Block
      else let r1 = send (OnInConnUpdate True) route in
        case net (Addr route) of
          ResolveFails err \<Rightarrow> Done (Some err, send (OnInConnUpdate False) r1)
        | DialFails ra err \<Rightarrow>
            Done (Some err, send (OnInConnUpdate False) (r1\<lparr>raddr := Some ra\<rparr>))
        | Connects ra new_conn \<Rightarrow>
            Done (None, send (OnInConnUpdate False)
                          (send (OnConnUpdates (Some new_conn)) (r1\<lparr>raddr := Some ra\<rparr>))))"

section \<open>The relay loop\<close>

text \<open>
  What the loop does to the outside: a counter of the statsd client incremented, a
  packet put on the disk queue, a write on a connection, a connection closed.
\<close>

datatype effect =
    Increment string
  | Put bytes
  | Write nat bytes
  | Close nat

text \<open>
  An invocation of \<^verbatim>\<open>updateConn\<close>, seen from the loop: started and not yet past its
  first send; past it, resolving and dialling; holding a new connection to hand over;
  about to send its deferred \<^verbatim>\<open>false\<close>; returned.
\<close>

datatype attempt = Spawned | Connecting | Delivering nat | Ending | Finished

text \<open>
  The locals \<^verbatim>\<open>conn\<close> and \<^verbatim>\<open>conn_updates\<close> of \<^verbatim>\<open>relay\<close>, the invocations of
  \<^verbatim>\<open>updateConn\<close> on this route, the effects so far, and whether the loop has returned.
  \<^verbatim>\<open>conn_updates\<close> is a Go \<^verbatim>\<open>int\<close> that moves by one; it is an integer here, and
  stays between 0 and the number of invocations (proved below), so the machine integer
  cannot wrap before that many goroutines have been started.
\<close>

record relay_state =
  conn :: "nat option"
  conn_updates :: int
  attempts :: "attempt list"
  effects :: "effect list"
  returned :: bool

definition period_assure_conn :: nat where
  "period_assure_conn = 60"

definition emit :: "effect \<Rightarrow> relay_state \<Rightarrow> relay_state" where
  "emit e st = st\<lparr>effects := effects st @ [e]\<rparr>"

definition metric :: "'rx Route \<Rightarrow> string \<Rightarrow> string" where
  "metric route suffix = ''route='' @ Key route @ suffix"

text \<open>
  The closure \<^verbatim>\<open>process_packet\<close>. \<open>wr\<close> is what \<^verbatim>\<open>conn.Write(buf)\<close> returns when it is
  called: the number of bytes written and the error.
\<close>

definition process_packet ::
  "'rx Route \<Rightarrow> bytes \<Rightarrow> nat \<times> error option \<Rightarrow> relay_state \<Rightarrow> relay_state" where
  "process_packet route buf wr st =
     (case conn st of
        None \<Rightarrow>
          (if Spool route
           then emit (Put buf)
                  (emit (Increment (metric route ''.target_type=count.unit=Metric.direction=spool'')) st)
           else emit (Increment (metric route ''.target_type=count.unit=Metric.direction=drop'')) st)
      | Some c \<Rightarrow>
          (let st1 = emit (Write c buf)
                       (emit (Increment (metric route ''.target_type=count.unit=Metric.direction=out'')) st)
           in case snd wr of
                Some err \<Rightarrow>
                  (let st2 = (emit (Close c)
                                (emit (Increment (metric route ''.target_type=count.unit=Err'')) st1))
                               \<lparr>conn := None\<rparr>
                   in if Spool route then emit (Put buf) st2 else st2)
              | None \<Rightarrow>
                  (if length buf \<noteq> fst wr
                   then (let st2 = (emit (Close c)
                                      (emit (Increment (metric route ''.target_type=count.unit=Err'')) st1))
                                     \<lparr>conn := None\<rparr>
                         in if Spool route then emit (Put buf) st2 else st2)
                   else st1)))"

text \<open>The cases of the \<^verbatim>\<open>select\<close>, each with the value received.\<close>

datatype select_case =
    FromInConnUpdate bool
  | FromConnUpdates "nat option"
  | FromTicker
  | FromShutdown
  | FromToUnspool bytes "nat \<times> error option"
  | FromCh bytes "nat \<times> error option"

definition relay_case :: "'rx Route \<Rightarrow> select_case \<Rightarrow> relay_state \<Rightarrow> relay_state" where
  "relay_case route c st =
     (case c of
        FromInConnUpdate inConnUpdate \<Rightarrow>
          (if inConnUpdate then st\<lparr>conn_updates := conn_updates st + 1\<rparr>
           else st\<lparr>conn_updates := conn_updates st - 1\<rparr>)
      | FromConnUpdates new_conn \<Rightarrow> st\<lparr>conn := new_conn\<rparr>
      | FromTicker \<Rightarrow>
          (if conn st = None \<and> conn_updates st = 0
           then st\<lparr>attempts := attempts st @ [Spawned]\<rparr>
           else st)
      | FromShutdown \<Rightarrow> st\<lparr>returned := True\<rparr>
      | FromToUnspool buf wr \<Rightarrow> process_packet route buf wr st
      | FromCh buf wr \<Rightarrow> process_packet route buf wr st)"

text \<open>
  The loop and the invocations of \<^verbatim>\<open>updateConn\<close> as one transition system. A label
  names what happens next: invocation \<open>i\<close> hands over its \<^verbatim>\<open>true\<close> (\<open>Begin\<close>), fails to
  resolve or dial (\<open>Fail\<close>), dials a connection (\<open>Dial\<close>), hands the connection over
  (\<open>Deliver\<close>), hands over its deferred \<^verbatim>\<open>false\<close> (\<open>End\<close>); the ticker fires; a shutdown
  is received; a packet comes from the disk queue or from \<^verbatim>\<open>ch\<close>; a caller of
  \<^verbatim>\<open>Routes.Update\<close> enters \<^verbatim>\<open>updateConn\<close> (\<open>Call\<close>). A send is a step of the loop
  too, since the channels are unbuffered, and is impossible once the loop has returned.
  \<^verbatim>\<open>to_unspool\<close> is nil, and its case never taken, unless there is a connection and the
  route spools. \<open>None\<close>: the step is not possible in this state.
\<close>

datatype label =
    Begin nat
  | Fail nat
  | Dial nat nat
  | Deliver nat
  | End nat
  | Tick
  | Stop
  | Unspool bytes "nat \<times> error option"
  | Live bytes "nat \<times> error option"
  | Call

definition phase_of :: "relay_state \<Rightarrow> nat \<Rightarrow> attempt option" where
  "phase_of st i = (if i < length (attempts st) then Some (attempts st ! i) else None)"

definition set_phase :: "nat \<Rightarrow> attempt \<Rightarrow> relay_state \<Rightarrow> relay_state" where
  "set_phase i a st = st\<lparr>attempts := (attempts st)[i := a]\<rparr>"

fun step :: "'rx Route \<Rightarrow> label \<Rightarrow> relay_state \<Rightarrow> relay_state option" where
  "step route (Begin i) st =
     (if \<not> returned st \<and> phase_of st i = Some Spawned
      then Some (set_phase i Connecting (relay_case route (FromInConnUpdate True) st))
      else None)"
| "step route (Fail i) st =
     (if phase_of st i = Some Connecting then Some (set_phase i Ending st) else None)"
| "step route (Dial i c) st =
     (if phase_of st i = Some Connecting then Some (set_phase i (Delivering c) st) else None)"
| "step route (Deliver i) st =
     (case phase_of st i of
        Some (Delivering c) \<Rightarrow>
          (if returned st then None
           else Some (set_phase i Ending (relay_case route (FromConnUpdates (Some c)) st)))
      | _ \<Rightarrow> None)"
| "step route (End i) st =
     (if \<not> returned st \<and> phase_of st i = Some Ending
      then Some (set_phase i Finished (relay_case route (FromInConnUpdate False) st))
      else None)"
| "step route Tick st =
     (if returned st then None else Some (relay_case route FromTicker st))"
| "step route Stop st =
     (if returned st then None else Some (relay_case route FromShutdown st))"
| "step route (Unspool buf wr) st =
     (if \<not> returned st \<and> conn st \<noteq> None \<and> Spool route
      then Some (relay_case route (FromToUnspool buf wr) st)
      else None)"
| "step route (Live buf wr) st =
     (if returned st then None else Some (relay_case route (FromCh buf wr) st))"
| "step route Call st = Some (st\<lparr>attempts := attempts st @ [Spawned]\<rparr>)"

text \<open>
  On entry \<^verbatim>\<open>relay\<close> has no connection, sets \<^verbatim>\<open>conn_updates\<close> to 0 and starts one
  invocation of \<^verbatim>\<open>updateConn\<close>.
\<close>

definition relay_init :: relay_state where
  "relay_init = \<lparr>conn = None, conn_updates = 0, attempts = [Spawned], effects = [],
                 returned = False\<rparr>"

fun run :: "'rx Route \<Rightarrow> label list \<Rightarrow> relay_state \<Rightarrow> relay_state option" where
  "run route [] st = Some st"
| "run route (l # ls) st =
     (case step route l st of None \<Rightarrow> None | Some st' \<Rightarrow> run route ls st')"

section \<open>The table of routes\<close>

text \<open>
  \<^verbatim>\<open>Dispatch\<close>: the loop over \<^verbatim>\<open>KeyList\<close>. \<^verbatim>\<open>routes.Map[key]\<close> of an absent key is the
  nil pointer, and reading \<^verbatim>\<open>route.Reg\<close> through it panics, as does \<^verbatim>\<open>Match\<close> on a nil
  \<^verbatim>\<open>Regexp\<close>. The send \<^verbatim>\<open>route.ch <- buf\<close> completes when the relay receives.
\<close>

definition submit :: "string \<Rightarrow> bytes \<Rightarrow> 'rx Routes \<Rightarrow> 'rx Routes" where
  "submit key buf routes =
     (case Map routes key of
        None \<Rightarrow> routes
      | Some route \<Rightarrow> routes\<lparr>Map := (Map routes)(key \<mapsto> send (OnCh buf) route)\<rparr>)"

fun Dispatch_loop ::
  "('rx \<Rightarrow> bytes \<Rightarrow> bool) \<Rightarrow> bytes \<Rightarrow> bool \<Rightarrow> string list \<Rightarrow> bool \<Rightarrow> 'rx Routes
     \<Rightarrow> (bool \<times> 'rx Routes) exec" where
  "Dispatch_loop rmatch buf first_only [] routed routes = Done (routed, routes)"
| "Dispatch_loop rmatch buf first_only (key # keys) routed routes =
     (case Map routes key of
        None \<Rightarrow> Panic
      | Some route \<Rightarrow>
          (case Reg route of
             None \<Rightarrow> Panic
           | Some re \<Rightarrow>
               if rmatch re buf
               then (if phase route \<noteq> Running then Block
                     else if first_only then Done (True, submit key buf routes)
                     else Dispatch_loop rmatch buf first_only keys True (submit key buf routes))
               else Dispatch_loop rmatch buf first_only keys routed routes))"

definition Dispatch ::
  "('rx \<Rightarrow> bytes \<Rightarrow> bool) \<Rightarrow> 'rx Routes \<Rightarrow> bytes \<Rightarrow> bool \<Rightarrow> (bool \<times> 'rx Routes) exec" where
  "Dispatch rmatch routes buf first_only =
     Dispatch_loop rmatch buf first_only (KeyList routes) False routes"

text \<open>
  \<^verbatim>\<open>List\<close> fills a \<^verbatim>\<open>map[string]Route\<close>, a map of struct values, with \<^verbatim>\<open>*v.Copy()\<close>
  for every entry of the table.
\<close>

definition List :: "'rx Routes \<Rightarrow> (string \<rightharpoonup> 'rx Route) \<times> 'rx Routes" where
  "List routes = (\<lambda>k. map_option Copy (Map routes k), routes)"

definition Add ::
  "(string \<Rightarrow> error + 'rx) \<Rightarrow> 'rx Routes \<Rightarrow> string \<Rightarrow> string \<Rightarrow> string \<Rightarrow> bool \<Rightarrow> nat
     \<Rightarrow> error option \<times> 'rx Routes" where
  "Add compile routes key patt addr spool instr =
     (case Map routes key of
        Some _ \<Rightarrow> (Some (ErrorsNew ''route with given key already exists''), routes)
      | None \<Rightarrow>
          (case NewRoute compile key patt addr (SpoolDir routes) spool instr of
             Inl err \<Rightarrow> (Some err, routes)
           | Inr route \<Rightarrow>
               (case Run route of
                  (Some err, _) \<Rightarrow> (Some err, routes)
                | (None, route') \<Rightarrow> (None, routes\<lparr>Map := (Map routes)(key \<mapsto> route')\<rparr>))))"

definition unknown_route :: "string \<Rightarrow> error" where
  "unknown_route key = ErrorsNew (''unknown route '' @ [CHR 0x27] @ key @ [CHR 0x27])"

text \<open>
  \<^verbatim>\<open>Update\<close> takes two \<^verbatim>\<open>*string\<close>; \<open>None\<close> is the nil pointer. The route is changed in
  place, through the pointer the table holds.
\<close>

definition Update ::
  "(string \<Rightarrow> error + 'rx) \<Rightarrow> (string \<Rightarrow> net_outcome) \<Rightarrow> 'rx Routes \<Rightarrow> string
     \<Rightarrow> string option \<Rightarrow> string option \<Rightarrow> (error option \<times> 'rx Routes) exec" where
  "Update compile net routes key addr patt =
     (case Map routes key of
        None \<Rightarrow> Done (Some (unknown_route key), routes)
      | Some route \<Rightarrow>
          (case addr of
             Some _ \<Rightarrow>
               (case updateConn net route of
                  Done (err, route') \<Rightarrow> Done (err, routes\<lparr>Map := (Map routes)(key \<mapsto> route')\<rparr>)
                | Panic \<Rightarrow> Panic
                | Block \<Rightarrow> Block)
           | None \<Rightarrow>
               (case patt of
                  Some p \<Rightarrow>
                    (case updatePattern compile route p of
                       (err, route') \<Rightarrow> Done (err, routes\<lparr>Map := (Map routes)(key \<mapsto> route')\<rparr>))
                | None \<Rightarrow> Done (None, routes))))"

text \<open>
  \<^verbatim>\<open>Del\<close> deletes the key from the map, then shuts the route down; the route is no
  longer part of the table, whatever \<^verbatim>\<open>Shutdown\<close> returns.
\<close>

definition Del :: "'rx Routes \<Rightarrow> string \<Rightarrow> (error option \<times> 'rx Routes) exec" where
  "Del routes key =
     (case Map routes key of
        None \<Rightarrow> Done (Some (unknown_route key), routes)
      | Some route \<Rightarrow>
          (let routes' = routes\<lparr>Map := (Map routes)(key := None)\<rparr>
           in case Shutdown route of
                Done (err, _) \<Rightarrow> Done (err, routes')
              | Panic \<Rightarrow> Panic
              | Block \<Rightarrow> Block))"

section \<open>Properties of the table and of the loop\<close>

text \<open>
  The compiled expression of a route is the one its pattern string compiles to.
\<close>

definition patt_reg_consistent :: "(string \<Rightarrow> error + 'rx) \<Rightarrow> 'rx Route \<Rightarrow> bool" where
  "patt_reg_consistent compile route =
     (case Reg route of None \<Rightarrow> False | Some re \<Rightarrow> compile (Patt route) = Inr re)"

text \<open>
  I1: every key of the dispatch order has a route in the map. \<open>all_listed\<close> is its
  converse, which the table must satisfy at rest.
\<close>

definition I1 :: "'rx Routes \<Rightarrow> bool" where
  "I1 routes = (\<forall>key \<in> set (KeyList routes). Map routes key \<noteq> None)"


text \<open>
  Every route of the table has been through \<^verbatim>\<open>NewRoute\<close>, which compiles its pattern,
  and \<^verbatim>\<open>Run\<close>, and has not been shut down.
\<close>

definition started :: "'rx Routes \<Rightarrow> bool" where
  "started routes =
     (\<forall>key route. Map routes key = Some route \<longrightarrow> Reg route \<noteq> None \<and> phase route = Running)"

definition ready :: "'rx Routes \<Rightarrow> string \<Rightarrow> bool" where
  "ready routes key =
     (case Map routes key of
        None \<Rightarrow> False
      | Some route \<Rightarrow> Reg route \<noteq> None \<and> phase route = Running)"

text \<open>
  The route under \<open>key\<close> matches the line; the keys of the order whose routes match, in
  order; the keys a dispatch hands the line to: all of them, or the first when
  \<^verbatim>\<open>first_only\<close>; what a route was handed between two states of the table.
\<close>

definition matches :: "('rx \<Rightarrow> bytes \<Rightarrow> bool) \<Rightarrow> 'rx Routes \<Rightarrow> bytes \<Rightarrow> string \<Rightarrow> bool" where
  "matches rmatch routes buf key =
     (case Map routes key of
        None \<Rightarrow> False
      | Some route \<Rightarrow> (case Reg route of None \<Rightarrow> False | Some re \<Rightarrow> rmatch re buf))"





text \<open>
  An invocation of \<^verbatim>\<open>updateConn\<close> is pending from its \<^verbatim>\<open>true\<close> to its \<^verbatim>\<open>false\<close>.
\<close>

fun pending :: "attempt \<Rightarrow> int" where
  "pending Spawned = 0"
| "pending Connecting = 1"
| "pending (Delivering c) = 1"
| "pending Ending = 1"
| "pending Finished = 0"

definition in_flight :: "relay_state \<Rightarrow> int" where
  "in_flight st = sum_list (map pending (attempts st))"

fun is_Begin :: "label \<Rightarrow> bool" where
  "is_Begin (Begin i) = True"
| "is_Begin l = False"

fun is_End :: "label \<Rightarrow> bool" where
  "is_End (End i) = True"
| "is_End l = False"

definition begins :: "label list \<Rightarrow> nat" where
  "begins ls = length (filter is_Begin ls)"

definition ends :: "label list \<Rightarrow> nat" where
  "ends ls = length (filter is_End ls)"

section \<open>Data for the examples\<close>

text \<open>
  A small stand-in for Go's \<^verbatim>\<open>regexp\<close>, for the concrete examples only: a pattern is a
  string of characters none of which is a metacharacter, after an optional \<^verbatim>\<open>^\<close>. It
  matches a line that holds the string (that starts with it, after \<^verbatim>\<open>^\<close>); the empty
  pattern matches every line. Any other pattern is refused, as Go refuses \<^verbatim>\<open>(\<close>.
\<close>

definition plain_char :: "char \<Rightarrow> bool" where
  "plain_char c = (c \<notin> set ''.+*?()|[]{}^$'' \<and> c \<noteq> CHR 0x5C)"

fun starts_with :: "string \<Rightarrow> string \<Rightarrow> bool" where
  "starts_with [] ys = True"
| "starts_with (x # xs) [] = False"
| "starts_with (x # xs) (y # ys) = (x = y \<and> starts_with xs ys)"

fun occurs_in :: "string \<Rightarrow> string \<Rightarrow> bool" where
  "occurs_in xs [] = (xs = [])"
| "occurs_in xs (y # ys) = (starts_with xs (y # ys) \<or> occurs_in xs ys)"

datatype sample_regex = Anywhere string | AtStart string

definition sample_compile :: "string \<Rightarrow> error + sample_regex" where
  "sample_compile p =
     (case p of
        [] \<Rightarrow> Inr (Anywhere [])
      | c # q \<Rightarrow>
          if c = CHR ''^'' \<and> list_all plain_char q then Inr (AtStart q)
          else if list_all plain_char p then Inr (Anywhere p)
          else Inl (CompileError p))"

fun sample_match :: "sample_regex \<Rightarrow> bytes \<Rightarrow> bool" where
  "sample_match (Anywhere s) buf = occurs_in s buf"
| "sample_match (AtStart s) buf = starts_with s buf"

text \<open>A network in which one address refuses connections and any other accepts.\<close>

definition sample_net :: "string \<Rightarrow> net_outcome" where
  "sample_net addr =
     (if addr = ''down:2003'' then DialFails addr (NetError ''connection refused'')
      else Connects addr 1)"

text \<open>A route as \<^verbatim>\<open>NewRoute\<close> and \<^verbatim>\<open>Run\<close> leave it.\<close>

definition sample_route ::
  "string \<Rightarrow> string \<Rightarrow> sample_regex \<Rightarrow> string \<Rightarrow> bool \<Rightarrow> sample_regex Route" where
  "sample_route key patt re addr spool =
     \<lparr>Key = key, Patt = patt, Addr = addr, spoolDir = ''/var/spool/carbon-relay-ng'',
      Spool = spool, instrument = 0, Reg = Some re, phase = Running,
      queue = (if spool then Some (''spool_'' @ key) else None), raddr = None, sent = []\<rparr>"

definition one_route :: "sample_regex Routes" where
  "one_route =
     \<lparr>Map = [''r1'' \<mapsto> sample_route ''r1'' '''' (Anywhere '''') ''5.6.7.8:2003'' False],
      KeyList = [''r1''], SpoolDir = ''/var/spool/carbon-relay-ng''\<rparr>"





definition hello :: bytes where
  "hello = ''hello'' @ [CHR 0x0A]"



definition spooling_route :: "sample_regex Route" where
  "spooling_route = sample_route ''s'' '''' (Anywhere '''') ''5.6.7.8:2003'' True"

definition dropping_route :: "sample_regex Route" where
  "dropping_route = sample_route ''d'' '''' (Anywhere '''') ''5.6.7.8:2003'' False"

text \<open>A loop with no invocation of \<^verbatim>\<open>updateConn\<close> pending and nothing done yet.\<close>

definition idle_relay :: "nat option \<Rightarrow> relay_state" where
  "idle_relay c =
     \<lparr>conn = c, conn_updates = 0, attempts = [Finished], effects = [], returned = False\<rparr>"

section \<open>The pattern of a route\<close>

text \<open>
  Claim C6. For every route and every pattern string \<open>p\<close>: when \<open>p\<close> does not compile,
  \<^verbatim>\<open>updatePattern\<close> returns the error and leaves the route, so its pattern string and
  its compiled expression, as they were; when \<open>p\<close> compiles, the pattern string and the
  compiled expression are replaced together and agree. A route whose pattern string and
  compiled expression agree before the call has them agree after it.
\<close>

theorem updatePattern_atomic:
  "(case compile p of
      Inl err \<Rightarrow> updatePattern compile route p = (Some err, route)
    | Inr regex \<Rightarrow>
        updatePattern compile route p = (None, route\<lparr>Patt := p, Reg := Some regex\<rparr>) \<and>
        Patt (snd (updatePattern compile route p)) = p \<and>
        Reg (snd (updatePattern compile route p)) = Some regex \<and>
        patt_reg_consistent compile (snd (updatePattern compile route p))) \<and>
   (patt_reg_consistent compile route \<longrightarrow>
      patt_reg_consistent compile (snd (updatePattern compile route p)))"
  by (auto simp: updatePattern_def patt_reg_consistent_def split: sum.splits option.splits)

theorem updatePattern_atomic_witness:
  "patt_reg_consistent sample_compile dropping_route \<and>
   updatePattern sample_compile dropping_route ''('' =
     (Some (CompileError ''(''), dropping_route) \<and>
   patt_reg_consistent sample_compile (snd (updatePattern sample_compile dropping_route ''('')) \<and>
   updatePattern sample_compile dropping_route ''^foo'' =
     (None, dropping_route\<lparr>Patt := ''^foo'', Reg := Some (AtStart ''foo'')\<rparr>) \<and>
   patt_reg_consistent sample_compile (snd (updatePattern sample_compile dropping_route ''^foo''))"
proof -
  have c: "patt_reg_consistent sample_compile dropping_route"
    by (simp add: patt_reg_consistent_def dropping_route_def sample_route_def sample_compile_def)
  have bad: "sample_compile ''('' = Inl (CompileError ''('')"
    by (simp add: sample_compile_def plain_char_def)
  have good: "sample_compile ''^foo'' = Inr (AtStart ''foo'')"
    by (simp add: sample_compile_def plain_char_def)
  from
    updatePattern_atomic [where compile = sample_compile and p = "''(''" and route = dropping_route]
    updatePattern_atomic [where compile = sample_compile and p = "''^foo''" and route = dropping_route]
    c bad good
  show ?thesis by auto
qed

section \<open>A packet in the relay loop\<close>

text \<open>
  Claim C5. For every packet \<open>b\<close> the loop processes: without a connection, \<open>b\<close> is
  counted as spool and put on the disk queue when the route spools, and counted as drop
  otherwise; with a connection, \<open>b\<close> is counted as out and written, and when the write
  returns an error or fewer bytes than \<open>b\<close> has, the error counter is incremented, the
  connection is closed and cleared, and \<open>b\<close> is put on the disk queue when the route
  spools. A complete write changes nothing else.
\<close>

theorem process_packet_cases:
  "(conn st = None \<and> Spool route \<longrightarrow>
      process_packet route b wr st =
        st\<lparr>effects := effects st @
              [Increment (metric route ''.target_type=count.unit=Metric.direction=spool''),
               Put b]\<rparr>) \<and>
   (conn st = None \<and> \<not> Spool route \<longrightarrow>
      process_packet route b wr st =
        st\<lparr>effects := effects st @
              [Increment (metric route ''.target_type=count.unit=Metric.direction=drop'')]\<rparr>) \<and>
   (conn st = Some c \<and> (snd wr \<noteq> None \<or> fst wr < length b) \<longrightarrow>
      process_packet route b wr st =
        st\<lparr>conn := None,
           effects := effects st @
              [Increment (metric route ''.target_type=count.unit=Metric.direction=out''),
               Write c b,
               Increment (metric route ''.target_type=count.unit=Err''),
               Close c] @ (if Spool route then [Put b] else [])\<rparr>) \<and>
   (conn st = Some c \<and> snd wr = None \<and> fst wr = length b \<longrightarrow>
      process_packet route b wr st =
        st\<lparr>effects := effects st @
              [Increment (metric route ''.target_type=count.unit=Metric.direction=out''),
               Write c b]\<rparr>)"
  by (auto simp: process_packet_def emit_def Let_def split: option.splits)

theorem process_packet_cases_witness:
  "process_packet spooling_route hello (0, None) (idle_relay None) =
     (idle_relay None)
       \<lparr>effects := [Increment ''route=s.target_type=count.unit=Metric.direction=spool'',
                    Put hello]\<rparr> \<and>
   process_packet dropping_route hello (0, None) (idle_relay None) =
     (idle_relay None)
       \<lparr>effects := [Increment ''route=d.target_type=count.unit=Metric.direction=drop'']\<rparr> \<and>
   process_packet spooling_route hello (2, None) (idle_relay (Some 3)) =
     (idle_relay None)
       \<lparr>effects := [Increment ''route=s.target_type=count.unit=Metric.direction=out'',
                    Write 3 hello,
                    Increment ''route=s.target_type=count.unit=Err'',
                    Close 3, Put hello]\<rparr> \<and>
   process_packet dropping_route hello (0, Some (NetError ''broken pipe'')) (idle_relay (Some 3)) =
     (idle_relay None)
       \<lparr>effects := [Increment ''route=d.target_type=count.unit=Metric.direction=out'',
                    Write 3 hello,
                    Increment ''route=d.target_type=count.unit=Err'',
                    Close 3]\<rparr> \<and>
   process_packet dropping_route hello (6, None) (idle_relay (Some 3)) =
     (idle_relay (Some 3))
       \<lparr>effects := [Increment ''route=d.target_type=count.unit=Metric.direction=out'',
                    Write 3 hello]\<rparr>"
  using
    process_packet_cases
      [where st = "idle_relay None" and route = spooling_route and b = hello and wr = "(0, None)"]
    process_packet_cases
      [where st = "idle_relay None" and route = dropping_route and b = hello and wr = "(0, None)"]
    process_packet_cases
      [where st = "idle_relay (Some 3)" and route = spooling_route and b = hello
         and wr = "(2, None)" and c = 3]
    process_packet_cases
      [where st = "idle_relay (Some 3)" and route = dropping_route and b = hello
         and wr = "(0, Some (NetError ''broken pipe''))" and c = 3]
    process_packet_cases
      [where st = "idle_relay (Some 3)" and route = dropping_route and b = hello
         and wr = "(6, None)" and c = 3]
  by (simp add: hello_def spooling_route_def dropping_route_def sample_route_def metric_def
      idle_relay_def)

section \<open>The ticker\<close>

text \<open>
  Claim C7. The ticker of the loop has a period of 60 seconds. When it fires, the loop
  starts a new invocation of \<^verbatim>\<open>updateConn\<close> if and only if there is no connection and
  the counter of pending invocations is zero; with a connection, or with the counter not
  zero, the tick changes nothing.
\<close>

theorem tick_starts_attempt_iff:
  assumes "\<not> returned st"
  shows "period_assure_conn = 60 \<and>
     (\<exists>st'. step route Tick st = Some st' \<and>
        (attempts st' = attempts st @ [Spawned] \<longleftrightarrow> conn st = None \<and> conn_updates st = 0) \<and>
        (conn st = None \<and> conn_updates st = 0 \<longrightarrow>
           st' = st\<lparr>attempts := attempts st @ [Spawned]\<rparr>) \<and>
        (conn st \<noteq> None \<or> conn_updates st \<noteq> 0 \<longrightarrow> st' = st))"
  using assms by (auto simp: period_assure_conn_def relay_case_def)

theorem tick_starts_attempt_iff_witness:
  "step (sample_route ''s'' '''' (Anywhere '''') ''5.6.7.8:2003'' True) Tick
     \<lparr>conn = None, conn_updates = 0, attempts = [Finished], effects = [], returned = False\<rparr>
   = Some \<lparr>conn = None, conn_updates = 0, attempts = [Finished, Spawned], effects = [],
           returned = False\<rparr> \<and>
   step (sample_route ''s'' '''' (Anywhere '''') ''5.6.7.8:2003'' True) Tick
     \<lparr>conn = None, conn_updates = 1, attempts = [Connecting], effects = [], returned = False\<rparr>
   = Some \<lparr>conn = None, conn_updates = 1, attempts = [Connecting], effects = [],
           returned = False\<rparr>"
  using
    tick_starts_attempt_iff
      [where st = "\<lparr>conn = None, conn_updates = 0, attempts = [Finished], effects = [],
                     returned = False\<rparr>"
         and route = "sample_route ''s'' '''' (Anywhere '''') ''5.6.7.8:2003'' True"]
    tick_starts_attempt_iff
      [where st = "\<lparr>conn = None, conn_updates = 1, attempts = [Connecting], effects = [],
                     returned = False\<rparr>"
         and route = "sample_route ''s'' '''' (Anywhere '''') ''5.6.7.8:2003'' True"]
  by auto

section \<open>The counter of pending invocations\<close>

lemma process_packet_frame:
  "conn_updates (process_packet route buf wr st) = conn_updates st \<and>
   attempts (process_packet route buf wr st) = attempts st \<and>
   returned (process_packet route buf wr st) = returned st"
  by (simp add: process_packet_def emit_def Let_def split: option.splits)

lemma sum_pending_update:
  "i < length xs \<Longrightarrow>
   sum_list (map pending (xs[i := a])) = sum_list (map pending xs) - pending (xs ! i) + pending a"
proof (induction xs arbitrary: i)
  case Nil
  then show ?case by simp
next
  case (Cons x xs)
  then show ?case by (cases i) simp_all
qed

lemma in_flight_set_phase:
  "phase_of st i = Some b \<Longrightarrow>
   in_flight (set_phase i a st) = in_flight st - pending b + pending a"
  by (auto simp: phase_of_def set_phase_def in_flight_def sum_pending_update split: if_splits)

lemma in_flight_nonneg: "0 \<le> in_flight st"
proof -
  have "0 \<le> pending a" for a by (cases a) simp_all
  then show ?thesis unfolding in_flight_def by (auto intro!: sum_list_nonneg)
qed

lemma in_flight_le: "in_flight st \<le> int (length (attempts st))"
proof -
  have "sum_list (map pending xs) \<le> int (length xs)" for xs
  proof (induction xs)
    case Nil
    then show ?case by simp
  next
    case (Cons a xs)
    then show ?case by (cases a) simp_all
  qed
  then show ?thesis by (simp add: in_flight_def)
qed

lemma conn_updates_set_phase [simp]: "conn_updates (set_phase i a st) = conn_updates st"
  by (simp add: set_phase_def)

lemma attempts_relay_case:
  "attempts (relay_case route (FromInConnUpdate b) st) = attempts st"
  "attempts (relay_case route (FromConnUpdates n) st) = attempts st"
  "attempts (relay_case route FromShutdown st) = attempts st"
  by (simp_all add: relay_case_def)

lemma conn_updates_relay_case:
  "conn_updates (relay_case route (FromInConnUpdate True) st) = conn_updates st + 1"
  "conn_updates (relay_case route (FromInConnUpdate False) st) = conn_updates st - 1"
  "conn_updates (relay_case route (FromConnUpdates n) st) = conn_updates st"
  "conn_updates (relay_case route FromShutdown st) = conn_updates st"
  "conn_updates (relay_case route FromTicker st) = conn_updates st"
  "conn_updates (relay_case route (FromToUnspool buf wr) st) = conn_updates st"
  "conn_updates (relay_case route (FromCh buf wr) st) = conn_updates st"
  by (simp_all add: relay_case_def process_packet_frame)

lemma in_flight_relay_case:
  "in_flight (relay_case route (FromInConnUpdate b) st) = in_flight st"
  "in_flight (relay_case route (FromConnUpdates n) st) = in_flight st"
  "in_flight (relay_case route FromShutdown st) = in_flight st"
  "in_flight (relay_case route FromTicker st) = in_flight st"
  "in_flight (relay_case route (FromToUnspool buf wr) st) = in_flight st"
  "in_flight (relay_case route (FromCh buf wr) st) = in_flight st"
  by (simp_all add: in_flight_def relay_case_def process_packet_frame)

lemma phase_of_relay_case:
  "phase_of (relay_case route (FromInConnUpdate b) st) i = phase_of st i"
  "phase_of (relay_case route (FromConnUpdates n) st) i = phase_of st i"
  by (simp_all add: phase_of_def attempts_relay_case)

lemma in_flight_moved:
  "phase_of st i = Some b \<Longrightarrow>
   in_flight (set_phase i a (relay_case route (FromInConnUpdate d) st)) =
     in_flight st - pending b + pending a"
  "phase_of st i = Some b \<Longrightarrow>
   in_flight (set_phase i a (relay_case route (FromConnUpdates n) st)) =
     in_flight st - pending b + pending a"
  by (simp_all add: in_flight_set_phase phase_of_relay_case in_flight_relay_case)

text \<open>A step keeps the counter equal to the number of pending invocations.\<close>

lemma step_in_flight:
  assumes "step route l st = Some st'" and "conn_updates st = in_flight st"
  shows "conn_updates st' = in_flight st'"
proof (cases l)
  case (Begin i)
  with assms show ?thesis
    by (auto simp: in_flight_moved conn_updates_relay_case split: if_splits)
next
  case (Fail i)
  with assms show ?thesis by (auto simp: in_flight_set_phase split: if_splits)
next
  case (Dial i c)
  with assms show ?thesis by (auto simp: in_flight_set_phase split: if_splits)
next
  case (Deliver i)
  with assms show ?thesis
    by (auto simp: in_flight_moved conn_updates_relay_case
             split: if_splits option.splits attempt.splits)
next
  case (End i)
  with assms show ?thesis
    by (auto simp: in_flight_moved conn_updates_relay_case split: if_splits)
next
  case Tick
  with assms show ?thesis
    by (auto simp: in_flight_relay_case conn_updates_relay_case split: if_splits)
next
  case Stop
  with assms show ?thesis
    by (auto simp: in_flight_relay_case conn_updates_relay_case split: if_splits)
next
  case (Unspool buf wr)
  with assms show ?thesis
    by (auto simp: in_flight_relay_case conn_updates_relay_case split: if_splits)
next
  case (Live buf wr)
  with assms show ?thesis
    by (auto simp: in_flight_relay_case conn_updates_relay_case split: if_splits)
next
  case Call
  with assms show ?thesis by (auto simp: in_flight_def)
qed

text \<open>Only the two notifications change the counter.\<close>

lemma step_counts:
  assumes "step route l st = Some st'"
  shows "conn_updates st' =
           conn_updates st + (if is_Begin l then 1 else 0) - (if is_End l then 1 else 0)"
  using assms
  by (cases l)
     (auto simp: conn_updates_relay_case split: if_splits option.splits attempt.splits)

lemma run_in_flight:
  "run route ls st = Some st' \<Longrightarrow> conn_updates st = in_flight st \<Longrightarrow>
   conn_updates st' = in_flight st'"
proof (induction ls arbitrary: st)
  case Nil
  then show ?case by simp
next
  case (Cons l ls)
  then show ?case by (auto split: option.splits dest: step_in_flight)
qed

lemma run_counts:
  "run route ls st = Some st' \<Longrightarrow>
   conn_updates st' = conn_updates st + int (begins ls) - int (ends ls)"
proof (induction ls arbitrary: st)
  case Nil
  then show ?case by (simp add: begins_def ends_def)
next
  case (Cons l ls)
  then show ?case
    by (auto split: option.splits dest!: step_counts simp: begins_def ends_def)
qed

text \<open>
  Claim C8. In every state the loop reaches, the counter \<^verbatim>\<open>conn_updates\<close> is not
  negative: it is the number of invocations of \<^verbatim>\<open>updateConn\<close> that have handed over
  their \<^verbatim>\<open>true\<close> and not yet their \<^verbatim>\<open>false\<close>, that is the number of \<^verbatim>\<open>true\<close>
  received less the number of \<^verbatim>\<open>false\<close> received, and the second never exceeds the
  first. The counter is at most the number of invocations ever started.
\<close>

theorem conn_updates_nonneg:
  assumes "run route ls relay_init = Some st"
  shows "0 \<le> conn_updates st \<and> conn_updates st = in_flight st \<and>
         conn_updates st = int (begins ls) - int (ends ls) \<and> ends ls \<le> begins ls \<and>
         conn_updates st \<le> int (length (attempts st))"
proof -
  have init: "conn_updates relay_init = in_flight relay_init"
    by (simp add: relay_init_def in_flight_def)
  have a: "conn_updates st = in_flight st" using run_in_flight [OF assms init] .
  have b: "conn_updates st = int (begins ls) - int (ends ls)"
    using run_counts [OF assms] by (simp add: relay_init_def)
  from a b in_flight_nonneg [of st] in_flight_le [of st] show ?thesis by simp
qed

theorem conn_updates_nonneg_witness:
  "run (sample_route ''s'' '''' (Anywhere '''') ''5.6.7.8:2003'' True)
     [Begin 0, Call, Begin 1, Fail 0, Dial 1 7, Deliver 1, End 0, Live hello (6, None)] relay_init
   = Some \<lparr>conn = Some 7, conn_updates = 1, attempts = [Finished, Ending],
           effects = [Increment ''route=s.target_type=count.unit=Metric.direction=out'',
                      Write 7 hello],
           returned = False\<rparr> \<and>
   0 \<le> conn_updates
     \<lparr>conn = Some 7, conn_updates = 1, attempts = [Finished, Ending],
      effects = [Increment ''route=s.target_type=count.unit=Metric.direction=out'',
                 Write 7 hello],
      returned = False\<rparr>"
proof -
  have r: "run (sample_route ''s'' '''' (Anywhere '''') ''5.6.7.8:2003'' True)
     [Begin 0, Call, Begin 1, Fail 0, Dial 1 7, Deliver 1, End 0, Live hello (6, None)] relay_init
   = Some \<lparr>conn = Some 7, conn_updates = 1, attempts = [Finished, Ending],
           effects = [Increment ''route=s.target_type=count.unit=Metric.direction=out'',
                      Write 7 hello],
           returned = False\<rparr>"
    by (simp add: relay_init_def relay_case_def phase_of_def set_phase_def process_packet_def
        emit_def metric_def sample_route_def hello_def)
  from r conn_updates_nonneg [OF r] show ?thesis by simp
qed

section \<open>Dispatch\<close>

lemma submit_fields [simp]:
  "KeyList (submit key buf routes) = KeyList routes"
  "SpoolDir (submit key buf routes) = SpoolDir routes"
  by (simp_all add: submit_def split: option.splits)

lemma Map_submit:
  "Map (submit key buf routes) k =
     (if k = key then map_option (send (OnCh buf)) (Map routes k) else Map routes k)"
  by (simp add: submit_def split: option.splits)

text \<open>Handing a line to a route changes neither what matches nor what is running.\<close>

lemma matches_submit [simp]:
  "matches rmatch (submit key buf routes) b = matches rmatch routes b"
  by (rule ext) (simp add: matches_def Map_submit send_def split: option.splits)

lemma ready_submit [simp]: "ready (submit key buf routes) = ready routes"
  by (rule ext) (simp add: ready_def Map_submit send_def split: option.splits)


lemma fold_submit_fields [simp]:
  "KeyList (fold (\<lambda>k. submit k buf) ks routes) = KeyList routes"
  "SpoolDir (fold (\<lambda>k. submit k buf) ks routes) = SpoolDir routes"
  by (induction ks arbitrary: routes) simp_all








section \<open>The listing\<close>

text \<open>
  Claim C9. \<^verbatim>\<open>List\<close> returns a copy of the table: the returned map has the keys of the
  table and holds, for each key, a route value whose \<^verbatim>\<open>Key\<close>, \<^verbatim>\<open>Patt\<close>, \<^verbatim>\<open>Addr\<close> and
  \<^verbatim>\<open>Spool\<close> (and \<^verbatim>\<open>spoolDir\<close>, \<^verbatim>\<open>instrument\<close>, \<^verbatim>\<open>Reg\<close>) are those of the stored
  route; the table is unchanged by the call. The returned map holds struct values, not
  the pointers of the table, and a copy has none of the channels, queue or address of
  the stored route: it is not running, so that nothing done to a copy reaches the stored
  route or its relay (\<^verbatim>\<open>Shutdown\<close> on a copy returns the error of a route not running).
\<close>

theorem List_copies:
  "snd (List routes) = routes \<and>
   dom (fst (List routes)) = dom (Map routes) \<and>
   (\<forall>key route. Map routes key = Some route \<longrightarrow>
      (\<exists>c. fst (List routes) key = Some c \<and>
         Key c = Key route \<and> Patt c = Patt route \<and> Addr c = Addr route \<and>
         Spool c = Spool route \<and> spoolDir c = spoolDir route \<and>
         instrument c = instrument route \<and> Reg c = Reg route \<and>
         phase c = NotRunning \<and> queue c = None \<and> raddr c = None \<and> sent c = [] \<and>
         Shutdown c = Done (Some (ErrorsNew ''not running yet''), c)))"
  by (auto simp: List_def Copy_def Shutdown_def dom_def)

theorem List_copies_witness:
  "snd (List one_route) = one_route \<and>
   (\<exists>c. fst (List one_route) ''r1'' = Some c \<and> Key c = ''r1'' \<and> Patt c = '''' \<and>
      Addr c = ''5.6.7.8:2003'' \<and> Spool c = False \<and> phase c = NotRunning)"
proof -
  have m: "Map one_route ''r1'' =
             Some (sample_route ''r1'' '''' (Anywhere '''') ''5.6.7.8:2003'' False)"
    by (simp add: one_route_def)
  from List_copies [of one_route] have
    "snd (List one_route) = one_route"
    "\<forall>key route. Map one_route key = Some route \<longrightarrow>
       (\<exists>c. fst (List one_route) key = Some c \<and>
         Key c = Key route \<and> Patt c = Patt route \<and> Addr c = Addr route \<and>
         Spool c = Spool route \<and> phase c = NotRunning)"
    by blast+
  with m show ?thesis by (fastforce simp: sample_route_def)
qed

section \<open>Updates of a route\<close>

text \<open>
  Claim C10. For every key of the table, \<^verbatim>\<open>Update\<close> with neither an address nor a
  pattern returns no error and leaves the whole table, so the pattern string, the
  compiled expression and the address of the route and every other route, unchanged.
\<close>

theorem Update_nothing:
  assumes "Map routes key \<noteq> None"
  shows "Update compile net routes key None None = Done (None, routes)"
  using assms by (auto simp: Update_def)

theorem Update_nothing_witness:
  "Map one_route ''r1'' \<noteq> None \<and>
   Update sample_compile sample_net one_route ''r1'' None None = Done (None, one_route)"
proof -
  have h: "Map one_route ''r1'' \<noteq> None" by (simp add: one_route_def)
  from h Update_nothing [OF h] show ?thesis by simp
qed

text \<open>
  With an address, \<^verbatim>\<open>Update\<close> returns what \<^verbatim>\<open>updateConn\<close> returns, whatever the
  pattern argument: the pattern string, the compiled expression and the address of the
  route are as before.
\<close>

lemma updateConn_keeps:
  "updateConn net route = Done (err, route') \<Longrightarrow>
   Patt route' = Patt route \<and> Reg route' = Reg route \<and> Addr route' = Addr route \<and>
   phase route' = phase route"
  by (auto simp: updateConn_def send_def Let_def split: if_splits net_outcome.splits)

lemma Update_addr_keeps_pattern:
  assumes "Map routes key = Some route"
    and "Update compile net routes key (Some addr) patt = Done (err, routes')"
  shows "\<exists>route'. Map routes' key = Some route' \<and> Patt route' = Patt route \<and>
           Reg route' = Reg route \<and> Addr route' = Addr route"
  using assms
  by (auto simp: Update_def split: exec.splits dest: updateConn_keeps)

text \<open>
  Claim C3 says that \<^verbatim>\<open>Update\<close> with both an address and a valid pattern applies the
  address first and the pattern second, so that the route ends with the new pattern. The
  code returns from the address branch: on the table of one route with the empty pattern,
  \<^verbatim>\<open>Update("r1", "1.2.3.4:2003", "^foo")\<close> returns no error, the relay has been told
  to take a new connection, and the route still has the empty pattern, its compiled
  expression and its old address, although \<^verbatim>\<open>^foo\<close> compiles.
\<close>

theorem Update_addr_skips_patt:
  "(\<exists>routes' route'.
      Update sample_compile sample_net one_route ''r1'' (Some ''1.2.3.4:2003'') (Some ''^foo'')
        = Done (None, routes') \<and>
      Map routes' ''r1'' = Some route' \<and>
      Patt route' = '''' \<and> Reg route' = Some (Anywhere '''') \<and> Addr route' = ''5.6.7.8:2003'' \<and>
      sent route' = [OnInConnUpdate True, OnConnUpdates (Some 1), OnInConnUpdate False]) \<and>
   sample_compile ''^foo'' = Inr (AtStart ''foo'')"
  by (simp add: Update_def updateConn_def send_def one_route_def sample_route_def sample_net_def
      sample_compile_def plain_char_def)

section \<open>Adding and deleting routes\<close>

text \<open>
  \<^verbatim>\<open>Add\<close> on a new key with a pattern that compiles returns no error and puts a started
  route under the key. Neither \<^verbatim>\<open>Add\<close> nor \<^verbatim>\<open>Del\<close> writes the dispatch order.
\<close>

lemma Add_inserts:
  assumes "Map routes key = None" and "compile patt = Inr re"
  shows "Add compile routes key patt addr spool instr =
     (None, routes\<lparr>Map := (Map routes)(key \<mapsto>
        \<lparr>Key = key, Patt = patt, Addr = addr, spoolDir = SpoolDir routes, Spool = spool,
         instrument = instr, Reg = Some re, phase = Running,
         queue = (if spool then Some (''spool_'' @ key) else None), raddr = None,
         sent = []\<rparr>)\<rparr>)"
  using assms by (simp add: Add_def NewRoute_def updatePattern_def Run_def)

lemma Add_KeyList:
  "KeyList (snd (Add compile routes key patt addr spool instr)) = KeyList routes"
  by (simp add: Add_def NewRoute_def updatePattern_def Run_def Let_def
      split: option.splits sum.splits)

lemma Del_KeyList:
  "Del routes key = Done (err, routes') \<Longrightarrow> KeyList routes' = KeyList routes"
  by (auto simp: Del_def Let_def split: option.splits exec.splits)

text \<open>
  The routes of a table stay started: \<^verbatim>\<open>Add\<close> stores a route that \<^verbatim>\<open>NewRoute\<close> has
  compiled and \<^verbatim>\<open>Run\<close> has started, \<^verbatim>\<open>Update\<close> keeps a compiled expression and the
  channels, \<^verbatim>\<open>Del\<close> takes its route out of the map before shutting it down.
\<close>

lemma Add_keeps_started:
  "started routes \<Longrightarrow> started (snd (Add compile routes key patt addr spool instr))"
  by (auto simp: started_def Add_def NewRoute_def updatePattern_def Run_def Let_def
      split: option.splits sum.splits if_splits)

lemma Update_keeps_started:
  assumes "started routes" and "Update compile net routes key addr patt = Done (err, routes')"
  shows "started routes'"
proof (cases "Map routes key")
  case None
  with assms show ?thesis by (simp add: Update_def)
next
  case (Some route)
  with assms(1) have r: "Reg route \<noteq> None" "phase route = Running"
    by (auto simp: started_def)
  show ?thesis
  proof (cases addr)
    case (Some a)
    with assms \<open>Map routes key = Some route\<close> r show ?thesis
      by (auto simp: Update_def started_def split: exec.splits if_splits
          dest!: updateConn_keeps)
  next
    case None
    with assms \<open>Map routes key = Some route\<close> r show ?thesis
      by (auto simp: Update_def started_def updatePattern_def
          split: option.splits sum.splits if_splits)
  qed
qed

lemma Del_keeps_started:
  "started routes \<Longrightarrow> Del routes key = Done (err, routes') \<Longrightarrow> started routes'"
  by (auto simp: started_def Del_def Let_def split: option.splits exec.splits if_splits)

lemma Add_keeps_I1:
  "I1 routes \<Longrightarrow> I1 (snd (Add compile routes key patt addr spool instr))"
  by (auto simp: I1_def Add_def NewRoute_def updatePattern_def Run_def Let_def
      split: option.splits sum.splits)

text \<open>
  Claim C1 says that \<^verbatim>\<open>Add\<close> of a new key with a valid pattern returns no error,
  inserts a started route and appends the key to the dispatch order, so that a later
  \<^verbatim>\<open>Dispatch\<close> of a matching line hands the line to the new route. The code does the
  first two and not the third: on the table of one route, \<^verbatim>\<open>Add("r2", "", "9.9.9.9:2003",
  false)\<close> returns no error and puts a started route under \<^verbatim>\<open>r2\<close>, the order is still
  \<^verbatim>\<open>[r1]\<close>, and a dispatch of \<^verbatim>\<open>hello\<close>, which the empty pattern matches, hands the
  line to \<^verbatim>\<open>r1\<close> and nothing to \<^verbatim>\<open>r2\<close>.
\<close>

theorem Add_leaves_KeyList:
  "fst (Add sample_compile one_route ''r2'' '''' ''9.9.9.9:2003'' False 0) = None \<and>
   Map (snd (Add sample_compile one_route ''r2'' '''' ''9.9.9.9:2003'' False 0)) ''r2'' =
     Some (sample_route ''r2'' '''' (Anywhere '''') ''9.9.9.9:2003'' False) \<and>
   KeyList (snd (Add sample_compile one_route ''r2'' '''' ''9.9.9.9:2003'' False 0)) = [''r1''] \<and>
   sample_match (Anywhere '''') hello \<and>
   (\<exists>routes'. Dispatch sample_match
       (snd (Add sample_compile one_route ''r2'' '''' ''9.9.9.9:2003'' False 0)) hello False
       = Done (True, routes') \<and>
      map_option sent (Map routes' ''r1'') = Some [OnCh hello] \<and>
      map_option sent (Map routes' ''r2'') = Some [])"
  by (simp add: Add_def NewRoute_def updatePattern_def sample_compile_def Run_def one_route_def
      sample_route_def Dispatch_def submit_def send_def hello_def)

text \<open>
  Claim C2 says that I1 holds after every sequence of \<^verbatim>\<open>Add\<close>, \<^verbatim>\<open>Del\<close>, \<^verbatim>\<open>Update\<close>
  and \<^verbatim>\<open>Dispatch\<close>, \<^verbatim>\<open>Del\<close> removing the key from the map and from the order. The code
  of \<^verbatim>\<open>Del\<close> removes the key from the map only: on the table of one route, which
  satisfies I1, \<^verbatim>\<open>Del("r1")\<close> returns no error and leaves \<^verbatim>\<open>r1\<close> in the order with no
  route in the map, and the next \<^verbatim>\<open>Dispatch\<close> looks the key up, gets the nil pointer and
  panics.
\<close>

theorem Del_leaves_KeyList:
  "Map one_route ''r1'' \<noteq> None \<and> KeyList one_route = [''r1''] \<and>
   (\<exists>routes'. Del one_route ''r1'' = Done (None, routes') \<and>
      Map routes' ''r1'' = None \<and> KeyList routes' = [''r1''] \<and>
      Dispatch sample_match routes' hello False = Panic)"
  by (simp add: Del_def Shutdown_def send_def one_route_def sample_route_def Dispatch_def)

end
